theory Spec2Isabelle
  imports Main "HOL-Library.Word" "HOL-Library.AList"
begin

section \<open>Python values\<close>

text \<open>
  The values that flow through \<^verbatim>\<open>api_app/classes.py\<close>: results returned by a plugin's
  \<^verbatim>\<open>run()\<close>, parameter values, instance attributes. \<open>PFile name data\<close> is a
  \<^verbatim>\<open>django.core.files.File\<close> with its name and the bytes that \<^verbatim>\<open>read()\<close> returns;
  \<open>PBytes\<close> is a \<^verbatim>\<open>bytes\<close> object; \<open>PList\<close> a \<^verbatim>\<open>list\<close>; \<open>PDict\<close> a \<^verbatim>\<open>dict\<close> with
  string keys, in insertion order.
\<close>

type_synonym byte = "8 word"

datatype pyval =
    PNone
  | PBool bool
  | PInt int
  | PStr string
  | PBytes "byte list"
  | PFile string "byte list"
  | PList "pyval list"
  | PDict "(string \<times> pyval) list"

text \<open>Python truthiness (\<^verbatim>\<open>not x\<close>, \<^verbatim>\<open>if x\<close>); a Django \<^verbatim>\<open>File\<close> is true when it has a name.\<close>

fun truthy :: "pyval \<Rightarrow> bool" where
  "truthy PNone = False"
| "truthy (PBool b) = b"
| "truthy (PInt i) = (i \<noteq> 0)"
| "truthy (PStr s) = (s \<noteq> [])"
| "truthy (PBytes bs) = (bs \<noteq> [])"
| "truthy (PFile nm bs) = (nm \<noteq> [])"
| "truthy (PList xs) = (xs \<noteq> [])"
| "truthy (PDict kvs) = (kvs \<noteq> [])"

subsection \<open>Strings\<close>

text \<open>\<^verbatim>\<open>s.startswith(pre)\<close>, \<^verbatim>\<open>needle in hay\<close> (Django's \<^verbatim>\<open>name__contains\<close>), and the
  case-insensitive \<^verbatim>\<open>name__icontains\<close>.\<close>

definition startswith :: "string \<Rightarrow> string \<Rightarrow> bool" where
  "startswith s pre = (take (length pre) s = pre)"

fun contains :: "string \<Rightarrow> string \<Rightarrow> bool" where
  "contains [] needle = (needle = [])"
| "contains (c # cs) needle = (startswith (c # cs) needle \<or> contains cs needle)"

definition lower_char :: "char \<Rightarrow> char" where
  "lower_char c =
     (let n = (of_char c :: nat) in if 65 \<le> n \<and> n \<le> 90 then char_of (n + 32) else c)"

definition icontains :: "string \<Rightarrow> string \<Rightarrow> bool" where
  "icontains hay needle = contains (map lower_char hay) (map lower_char needle)"

text \<open>\<^verbatim>\<open>str(n)\<close> for an integer, as the f-strings print a job id.\<close>

definition digit_char :: "nat \<Rightarrow> char" where
  "digit_char d = char_of (48 + d mod 10)"

function str_nat :: "nat \<Rightarrow> string" where
  "str_nat n = (if n < 10 then [digit_char n] else str_nat (n div 10) @ [digit_char (n mod 10)])"
  by pat_completeness auto
termination
  by (relation "measure id") auto

definition str_int :: "int \<Rightarrow> string" where
  "str_int i = (if i < 0 then CHR ''-'' # str_nat (nat (- i)) else str_nat (nat i))"

subsection \<open>Base64\<close>

text \<open>\<^verbatim>\<open>base64.b64encode(data).decode("utf-8")\<close>: the standard alphabet, three bytes to four
  characters, padded with \<^verbatim>\<open>=\<close>.\<close>

definition b64_alphabet :: string where
  "b64_alphabet = ''ABCDEFGHIJKLMNOPQRSTUVWXYZabcdefghijklmnopqrstuvwxyz0123456789+/''"

definition b64_char :: "nat \<Rightarrow> char" where
  "b64_char n = b64_alphabet ! (n mod 64)"

fun b64encode :: "byte list \<Rightarrow> string" where
  "b64encode [] = []"
| "b64encode [a] =
     (let n = unat a * 65536
      in [b64_char (n div 262144), b64_char (n div 4096), CHR ''='', CHR ''=''])"
| "b64encode [a, b] =
     (let n = unat a * 65536 + unat b * 256
      in [b64_char (n div 262144), b64_char (n div 4096), b64_char (n div 64), CHR ''=''])"
| "b64encode (a # b # c # rest) =
     (let n = unat a * 65536 + unat b * 256 + unat c
      in [b64_char (n div 262144), b64_char (n div 4096), b64_char (n div 64), b64_char n]
         @ b64encode rest)"

section \<open>Exceptions\<close>

text \<open>
  A Python class is its qualified name and its base classes; \<open>mro\<close> lists a class and
  all its ancestors, and \<^verbatim>\<open>isinstance(e, C)\<close> holds when \<open>C\<close> is among those of the class
  of \<open>e\<close>. An exception instance carries its class, the text \<^verbatim>\<open>str(e)\<close>, and what
  \<^verbatim>\<open>e.response\<close> is.
\<close>

datatype pyclass = Cls string "pyclass list"

fun mro :: "pyclass \<Rightarrow> pyclass list" where
  "mro (Cls n bases) = Cls n bases # concat (map mro bases)"

definition BaseException :: pyclass where
  "BaseException = Cls ''BaseException'' []"

definition Exception :: pyclass where
  "Exception = Cls ''Exception'' [BaseException]"

definition KeyboardInterrupt :: pyclass where
  "KeyboardInterrupt = Cls ''KeyboardInterrupt'' [BaseException]"

definition AttributeError :: pyclass where
  "AttributeError = Cls ''AttributeError'' [Exception]"

definition TypeError :: pyclass where
  "TypeError = Cls ''TypeError'' [Exception]"

definition ImportError :: pyclass where
  "ImportError = Cls ''ImportError'' [Exception]"

definition RuntimeError :: pyclass where
  "RuntimeError = Cls ''RuntimeError'' [Exception]"

definition NotImplementedError :: pyclass where
  "NotImplementedError = Cls ''NotImplementedError'' [RuntimeError]"

definition OSError :: pyclass where
  "OSError = Cls ''OSError'' [Exception]"

definition RequestException :: pyclass where
  "RequestException = Cls ''requests.exceptions.RequestException'' [OSError]"

definition HTTPError :: pyclass where
  "HTTPError = Cls ''requests.exceptions.HTTPError'' [RequestException]"

definition ConnectionError :: pyclass where
  "ConnectionError = Cls ''requests.exceptions.ConnectionError'' [RequestException]"

definition Timeout :: pyclass where
  "Timeout = Cls ''requests.exceptions.Timeout'' [RequestException]"

definition SoftTimeLimitExceeded :: pyclass where
  "SoftTimeLimitExceeded = Cls ''billiard.exceptions.SoftTimeLimitExceeded'' [Exception]"

definition ObjectDoesNotExist :: pyclass where
  "ObjectDoesNotExist = Cls ''django.core.exceptions.ObjectDoesNotExist'' [Exception]"

definition DoesNotExist :: pyclass where
  "DoesNotExist = Cls ''api_app.models.Job.DoesNotExist'' [ObjectDoesNotExist]"

text \<open>\<^verbatim>\<open>e.response\<close>: no such attribute, an object without \<^verbatim>\<open>status_code\<close> (such as
  \<^verbatim>\<open>None\<close>), or a response with its status code.\<close>

datatype response_attr = NoResponseAttr | ResponseWithoutStatus | Response int

record exn =
  exn_class :: pyclass
  exn_str :: string
  response :: response_attr

definition isinstance :: "exn \<Rightarrow> pyclass \<Rightarrow> bool" where
  "isinstance e c = (c \<in> set (mro (exn_class e)))"

fun isinstance_any :: "exn \<Rightarrow> pyclass list \<Rightarrow> bool" where
  "isinstance_any e [] = False"
| "isinstance_any e (c # cs) = (isinstance e c \<or> isinstance_any e cs)"

definition raise :: "pyclass \<Rightarrow> string \<Rightarrow> exn" where
  "raise c msg = \<lparr>exn_class = c, exn_str = msg, response = NoResponseAttr\<rparr>"

section \<open>Data model\<close>

text \<open>
  The collaborators of \<^verbatim>\<open>api_app/classes.py\<close> live in \<^verbatim>\<open>api_app.models\<close>,
  \<^verbatim>\<open>certego_saas\<close> and \<^verbatim>\<open>django.conf\<close>; the records below hold the attributes the
  source reads and writes.
\<close>

record settings =
  STAGE_CI :: bool
  MOCK_CONNECTIONS :: bool

type_synonym organization = string

text \<open>\<^verbatim>\<open>user.has_membership()\<close> is \<open>membership u \<noteq> None\<close>;
  \<^verbatim>\<open>user.membership.organization\<close> is the organization held there.\<close>

record user =
  username :: string
  membership :: "organization option"

definition has_membership :: "user \<Rightarrow> bool" where
  "has_membership u = (membership u \<noteq> None)"

record org_configuration =
  rate_limit_timeout :: "nat option"

record parameter =
  param_name :: string
  param_value :: pyval
  is_secret :: bool
  required :: bool
  is_from_org :: bool
  configured :: bool

record job =
  job_user :: user
  data_model :: "string \<rightharpoonup> pyval"

datatype status = RUNNING | SUCCESS | FAILED

text \<open>An \<^verbatim>\<open>AbstractReport\<close>; the field \<open>report\<close> is the content.\<close>

record abstract_report =
  pk :: nat
  report_job :: int
  task_id :: string
  status :: status
  report :: pyval
  errors :: "string list"
  start_time :: "nat option"
  end_time :: "nat option"

text \<open>
  What an execution does to the outside, in order: log records (\<^verbatim>\<open>logger.exception\<close> is
  the level \<open>EXCEPTION\<close>), \<^verbatim>\<open>traceback.print_exc()\<close>, the call of the organization
  configuration's \<^verbatim>\<open>disable_for_rate_limit()\<close>, and each entry into \<^verbatim>\<open>after_run\<close>.
\<close>

datatype level = DEBUG | INFO | WARNING | ERROR | EXCEPTION

datatype event =
    Log level string
  | Print_exc
  | Org_disable_for_rate_limit organization
  | Call_after_run

text \<open>The answer of \<^verbatim>\<open>requests.head(url, timeout=10, verify=False)\<close>: a response, with its
  status code and the text of the \<^verbatim>\<open>HTTPError\<close> that \<^verbatim>\<open>raise_for_status()\<close> would raise,
  or an exception.\<close>

record http_response =
  status_code :: int
  http_error_msg :: string

datatype head_result = Head_returns http_response | Head_raises exn

text \<open>
  A concrete plugin with its configuration and its surroundings: the names its messages
  print, its allow-list \<^verbatim>\<open>get_exceptions_to_catch()\<close>, the collaborators of
  \<^verbatim>\<open>self._config\<close> (the Parameter Resolver \<^verbatim>\<open>read_configured_params\<close>, the annotated
  parameters the health check reads, \<^verbatim>\<open>get_or_create_org_configuration\<close>), what the
  subclass's \<^verbatim>\<open>before_run()\<close> and \<^verbatim>\<open>run()\<close> do in this execution (return, or raise),
  the exception that \<^verbatim>\<open>self.report.save()\<close> raises inside \<^verbatim>\<open>after_run\<close> if it does,
  the network seen by \<^verbatim>\<open>requests.head\<close>, and the Django settings.
\<close>

record plugin =
  class_name :: string
  config_model_name :: string
  get_exceptions_to_catch :: "pyclass list"
  read_configured_params :: "user \<Rightarrow> (string \<times> pyval) list \<Rightarrow> exn + parameter list"
  annotated_parameters :: "user option \<Rightarrow> parameter list"
  get_or_create_org_configuration :: "organization \<Rightarrow> org_configuration"
  before_run_impl :: "exn option"
  run_impl :: "exn + pyval"
  after_run_save_raises :: "exn option"
  requests_head :: "string \<Rightarrow> head_result"
  django_settings :: settings

text \<open>
  The mutable state: the Job Store, the rows of the Report Store, the clock read by
  \<^verbatim>\<open>timezone.now()\<close>, the attributes of the plugin instance (\<^verbatim>\<open>_job_id\<close>, the cached
  \<^verbatim>\<open>_job\<close>, \<^verbatim>\<open>report\<close>, \<^verbatim>\<open>__parameters\<close>, and those bound by \<^verbatim>\<open>config\<close> or declared
  by the class, by name), and the trace of events.
\<close>

record state =
  jobs :: "(int \<times> job) list"
  report_rows :: "abstract_report list"
  clock :: nat
  self_job_id :: "int option"
  self_job :: "job option"
  self_report :: "abstract_report option"
  self_parameters :: "parameter list option"
  self_attrs :: "(string \<times> pyval) list"
  trace :: "event list"

section \<open>The Report Store\<close>

text \<open>
  Modelled from the spec: \<^verbatim>\<open>PythonConfig.generate_empty_report\<close> and
  \<^verbatim>\<open>AbstractReport.save\<close> are in \<^verbatim>\<open>api_app.models\<close>, which is not among the sources. The
  spec: "Create an empty report in RUNNING status, tagged with taskId and a start
  timestamp", and \<^verbatim>\<open>Report.save(fields)\<close> with "update-only-changed-fields" writes. The
  new row has no content, no errors and no end time; \<open>save None\<close> writes every field of
  the in-memory report to its row, \<open>save (Some fs)\<close> the fields named in \<open>fs\<close>.
\<close>

definition generate_empty_report :: "int \<Rightarrow> string \<Rightarrow> status \<Rightarrow> state \<Rightarrow> abstract_report \<times> state" where
  "generate_empty_report job_pk task st s =
     (let r = \<lparr>pk = length (report_rows s), report_job = job_pk, task_id = task, status = st,
               report = PDict [], errors = [], start_time = Some (clock s), end_time = None\<rparr>
      in (r, s\<lparr>report_rows := report_rows s @ [r]\<rparr>))"

definition update_row :: "string list option \<Rightarrow> abstract_report \<Rightarrow> abstract_report \<Rightarrow> abstract_report" where
  "update_row update_fields r row =
     (case update_fields of
        None \<Rightarrow> r
      | Some fs \<Rightarrow>
          row\<lparr>task_id := (if ''task_id'' \<in> set fs then task_id r else task_id row),
              status := (if ''status'' \<in> set fs then status r else status row),
              report := (if ''report'' \<in> set fs then report r else report row),
              errors := (if ''errors'' \<in> set fs then errors r else errors row),
              start_time := (if ''start_time'' \<in> set fs then start_time r else start_time row),
              end_time := (if ''end_time'' \<in> set fs then end_time r else end_time row)\<rparr>)"

definition save :: "string list option \<Rightarrow> abstract_report \<Rightarrow> state \<Rightarrow> state" where
  "save update_fields r s =
     (if pk r < length (report_rows s)
      then s\<lparr>report_rows := (report_rows s)[pk r := update_row update_fields r (report_rows s ! pk r)]\<rparr>
      else s)"

section \<open>The plugin: \<^verbatim>\<open>api_app/classes.py\<close>\<close>

definition log :: "level \<Rightarrow> string \<Rightarrow> state \<Rightarrow> state" where
  "log lvl msg s = s\<lparr>trace := trace s @ [Log lvl msg]\<rparr>"

text \<open>\<^verbatim>\<open>Plugin._job\<close>, a cached property: \<^verbatim>\<open>Job.objects.get(pk=self.job_id)\<close> on first use.\<close>

definition get_job :: "state \<Rightarrow> (exn + job) \<times> state" where
  "get_job s =
     (case self_job s of
        Some j \<Rightarrow> (Inr j, s)
      | None \<Rightarrow>
          (case self_job_id s of
             None \<Rightarrow> (Inl (raise AttributeError ''_job_id''), s)
           | Some i \<Rightarrow>
               (case map_of (jobs s) i of
                  None \<Rightarrow> (Inl (raise DoesNotExist ''Job matching query does not exist.''), s)
                | Some j \<Rightarrow> (Inr j, s\<lparr>self_job := Some j\<rparr>))))"

text \<open>\<^verbatim>\<open>Plugin.__str__\<close>.\<close>

definition plugin_str :: "plugin \<Rightarrow> state \<Rightarrow> string" where
  "plugin_str p s =
     (case self_job_id s of
        Some i \<Rightarrow> ''('' @ class_name p @ '', job: #'' @ str_int i @ '')''
      | None \<Rightarrow> class_name p)"

text \<open>\<^verbatim>\<open>Plugin.config\<close>: resolve the parameters against the job's user and bind each as an
  attribute, a secret one under a leading underscore. (The debug line that prints each
  value is not recorded in the trace.)\<close>

definition bind_parameter :: "parameter \<Rightarrow> state \<Rightarrow> state" where
  "bind_parameter q s =
     (let attribute_name = (if is_secret q then CHR ''_'' # param_name q else param_name q)
      in s\<lparr>self_attrs := AList.update attribute_name (param_value q) (self_attrs s)\<rparr>)"

definition config :: "plugin \<Rightarrow> (string \<times> pyval) list \<Rightarrow> state \<Rightarrow> (exn + unit) \<times> state" where
  "config p runtime_configuration s =
     (case get_job s of
        (Inl e, s1) \<Rightarrow> (Inl e, s1)
      | (Inr j, s1) \<Rightarrow>
          (case read_configured_params p (job_user j) runtime_configuration of
             Inl e \<Rightarrow> (Inl e, s1)
           | Inr ps \<Rightarrow> (Inr (), fold bind_parameter ps (s1\<lparr>self_parameters := Some ps\<rparr>))))"

text \<open>\<^verbatim>\<open>before_run\<close> and \<^verbatim>\<open>run\<close> are the subclass's.\<close>

definition before_run :: "plugin \<Rightarrow> state \<Rightarrow> (exn + unit) \<times> state" where
  "before_run p s = (case before_run_impl p of None \<Rightarrow> (Inr (), s) | Some e \<Rightarrow> (Inl e, s))"

definition run :: "plugin \<Rightarrow> state \<Rightarrow> (exn + pyval) \<times> state" where
  "run p s = (run_impl p, s)"

text \<open>\<^verbatim>\<open>Plugin.after_run\<close>: stamp the end time, save the report.\<close>

definition after_run :: "plugin \<Rightarrow> state \<Rightarrow> (exn + unit) \<times> state" where
  "after_run p s =
     (let s0 = s\<lparr>trace := trace s @ [Call_after_run]\<rparr>
      in case self_report s0 of
           None \<Rightarrow> (Inl (raise AttributeError ''report''), s0)
         | Some r \<Rightarrow>
             (let r1 = r\<lparr>end_time := Some (clock s0)\<rparr>;
                  s1 = s0\<lparr>self_report := Some r1\<rparr>
              in case after_run_save_raises p of
                   Some e \<Rightarrow> (Inl e, s1)
                 | None \<Rightarrow> (Inr (), save None r1 s1)))"

text \<open>\<^verbatim>\<open>Plugin.after_run_success\<close>.\<close>

fun encode_entry :: "pyval \<Rightarrow> pyval" where
  "encode_entry (PFile nm bs) = PStr (b64encode bs)"
| "encode_entry (PBytes bs) = PStr (b64encode bs)"
| "encode_entry n = n"

fun report_content :: "pyval \<Rightarrow> pyval" where
  "report_content (PList content) = PList (map encode_entry content)"
| "report_content content = content"

definition after_run_success :: "pyval \<Rightarrow> state \<Rightarrow> (exn + unit) \<times> state" where
  "after_run_success content s =
     (case self_report s of
        None \<Rightarrow> (Inl (raise AttributeError ''report''), s)
      | Some r \<Rightarrow>
          (let r1 = r\<lparr>report := report_content content, status := SUCCESS\<rparr>
           in (Inr (), save (Some [''status'', ''report'']) r1 (s\<lparr>self_report := Some r1\<rparr>))))"

text \<open>\<^verbatim>\<open>Plugin.get_error_message\<close> and \<^verbatim>\<open>Plugin.log_error\<close>.\<close>

definition get_error_message :: "plugin \<Rightarrow> state \<Rightarrow> exn \<Rightarrow> bool \<Rightarrow> string" where
  "get_error_message p s err is_base_err =
     plugin_str p s @ ''.'' @ '' ''
       @ (if is_base_err then ''Unexpected error'' else config_model_name p @ '' error'') @ '':''
       @ '' '' @ [CHR 0x27] @ exn_str err @ [CHR 0x27]"

definition log_error :: "plugin \<Rightarrow> exn \<Rightarrow> state \<Rightarrow> state" where
  "log_error p e s =
     (if isinstance_any e (get_exceptions_to_catch p @ [SoftTimeLimitExceeded, HTTPError])
      then log ERROR (get_error_message p s e False) s
      else log EXCEPTION (get_error_message p s e True) (s\<lparr>trace := trace s @ [Print_exc]\<rparr>))"

text \<open>\<^verbatim>\<open>Plugin.disable_for_rate_limit\<close>.\<close>

definition disable_for_rate_limit :: "plugin \<Rightarrow> state \<Rightarrow> (exn + unit) \<times> state" where
  "disable_for_rate_limit p s =
     (case get_job (log INFO (''Trying to disable for rate limit '' @ plugin_str p s) s) of
        (Inl e, s1) \<Rightarrow> (Inl e, s1)
      | (Inr j, s1) \<Rightarrow>
          (case membership (job_user j) of
             None \<Rightarrow>
               (Inr (), log INFO (''User '' @ username (job_user j) @ '' is not in organization.'') s1)
           | Some org \<Rightarrow>
               (case rate_limit_timeout (get_or_create_org_configuration p org) of
                  None \<Rightarrow>
                    (Inr (), log WARNING (''You are trying to disable '' @ plugin_str p s1
                                @ '' for rate limit without specifying a timeout.'') s1)
                | Some t \<Rightarrow>
                    (case self_parameters s1 of
                       None \<Rightarrow> (Inl (raise AttributeError ''_Plugin__parameters''), s1)
                     | Some ps \<Rightarrow>
                         (let api_key_parameter =
                                List.find (\<lambda>q. contains (param_name q) ''api_key'') ps
                          in if (case api_key_parameter of
                                   None \<Rightarrow> True
                                 | Some k \<Rightarrow> is_from_org k
                                     \<or> (\<not> required k \<and> \<not> truthy (param_value k)))
                             then (Inr (), s1\<lparr>trace := trace s1 @ [Org_disable_for_rate_limit org]\<rparr>)
                             else (Inr (), log WARNING (''Not disabling '' @ plugin_str p s1
                                            @ '' because api key used is personal'') s1))))))"

text \<open>\<^verbatim>\<open>Plugin.after_run_failed\<close>.\<close>

definition is_rate_limit :: "exn \<Rightarrow> bool" where
  "is_rate_limit e =
     (isinstance e HTTPError
      \<and> (case response e of Response c \<Rightarrow> c = 429 | _ \<Rightarrow> False))"

definition after_run_failed :: "plugin \<Rightarrow> exn \<Rightarrow> state \<Rightarrow> (exn + unit) \<times> state" where
  "after_run_failed p e s =
     (case self_report s of
        None \<Rightarrow> (Inl (raise AttributeError ''report''), s)
      | Some r \<Rightarrow>
          (let r1 = r\<lparr>errors := errors r @ [exn_str e], status := FAILED\<rparr>;
               s1 = save (Some [''status'', ''errors'']) r1 (s\<lparr>self_report := Some r1\<rparr>)
           in case (if is_rate_limit e then disable_for_rate_limit p s1
                    else (Inr (), log_error p e s1)) of
                (Inl e', s2) \<Rightarrow> (Inl e', s2)
              | (Inr u, s2) \<Rightarrow>
                  (if STAGE_CI (django_settings p) then (Inl e, s2) else (Inr (), s2))))"

text \<open>
  \<^verbatim>\<open>Plugin.start\<close>. \<open>start_try\<close> is the body of the \<^verbatim>\<open>try\<close>; \<open>start_handlers\<close> is the
  \<^verbatim>\<open>except Exception\<close> and \<^verbatim>\<open>else\<close> clauses (an exception that is not an \<^verbatim>\<open>Exception\<close>
  passes both); \<open>start\<close> binds the job id, creates the report, and runs \<^verbatim>\<open>after_run\<close>
  in the \<^verbatim>\<open>finally\<close>, whose exception, if any, replaces the pending one.
\<close>

definition start_try :: "plugin \<Rightarrow> (string \<times> pyval) list \<Rightarrow> state \<Rightarrow> (exn + pyval) \<times> state" where
  "start_try p runtime_configuration s =
     (case config p runtime_configuration s of
        (Inl e, s1) \<Rightarrow> (Inl e, s1)
      | (Inr u, s1) \<Rightarrow>
          (case before_run p s1 of
             (Inl e, s2) \<Rightarrow> (Inl e, s2)
           | (Inr u', s2) \<Rightarrow> run p s2))"

definition start_handlers :: "plugin \<Rightarrow> (exn + pyval) \<times> state \<Rightarrow> (exn + unit) \<times> state" where
  "start_handlers p body =
     (case body of
        (Inl e, s) \<Rightarrow> (if isinstance e Exception then after_run_failed p e s else (Inl e, s))
      | (Inr result, s) \<Rightarrow> after_run_success result s)"

definition start :: "plugin \<Rightarrow> int \<Rightarrow> (string \<times> pyval) list \<Rightarrow> string \<Rightarrow> state \<Rightarrow> (exn + unit) \<times> state" where
  "start p job_id runtime_configuration task s =
     (case get_job (s\<lparr>self_job_id := Some job_id\<rparr>) of
        (Inl e, s1) \<Rightarrow> (Inl e, s1)
      | (Inr j, s1) \<Rightarrow>
          (let (r, s2) = generate_empty_report job_id task RUNNING s1;
               s3 = s2\<lparr>self_report := Some r\<rparr>;
               (outcome, s4) = start_handlers p (start_try p runtime_configuration s3);
               (final, s5) = after_run p s4
           in case final of
                Inl e \<Rightarrow> (Inl e, s5)
              | Inr u \<Rightarrow> (outcome, s5)))"

text \<open>
  A plugin instance is made for one execution: \<^verbatim>\<open>Plugin.__init__\<close> stores the
  configuration and binds nothing else, so on entry to \<^verbatim>\<open>start\<close> or \<^verbatim>\<open>health_check\<close> the
  instance has no job id, no cached job, no report and no parameters; \<open>class_attrs\<close> are
  the attributes the concrete class declares (such as \<^verbatim>\<open>url\<close>).
\<close>

definition init :: "(int \<times> job) list \<Rightarrow> abstract_report list \<Rightarrow> nat \<Rightarrow> (string \<times> pyval) list \<Rightarrow> state" where
  "init job_store rows now class_attrs =
     \<lparr>jobs = job_store, report_rows = rows, clock = now, self_job_id = None, self_job = None,
      self_report = None, self_parameters = None, self_attrs = class_attrs, trace = []\<rparr>"

subsection \<open>Health check\<close>

text \<open>\<^verbatim>\<open>Plugin._get_health_check_url\<close>: the value of the first configured parameter with
  \<^verbatim>\<open>url\<close> in its name that has a value, else the instance's \<^verbatim>\<open>url\<close> attribute.\<close>

definition get_health_check_url :: "plugin \<Rightarrow> user option \<Rightarrow> state \<Rightarrow> pyval option \<times> state" where
  "get_health_check_url p usr s =
     (let params = filter (\<lambda>q. icontains (param_name q) ''url'') (annotated_parameters p usr)
      in case List.find (\<lambda>q. \<not> (\<not> configured q \<or> \<not> truthy (param_value q))) params of
           Some q \<Rightarrow>
             (Some (param_value q),
              log INFO (''Url retrieved to verify is '' @ param_name q @ '' for '' @ plugin_str p s) s)
         | None \<Rightarrow>
             (case map_of (self_attrs s) ''url'' of
                Some v \<Rightarrow> (if truthy v then (Some v, s) else (None, s))
              | None \<Rightarrow> (None, s)))"

text \<open>\<^verbatim>\<open>Response.raise_for_status()\<close> raises for the codes 400 to 599.\<close>

definition raise_for_status :: "http_response \<Rightarrow> exn option" where
  "raise_for_status resp =
     (if 400 \<le> status_code resp \<and> status_code resp < 600
      then Some \<lparr>exn_class = HTTPError, exn_str = http_error_msg resp,
                 response = Response (status_code resp)\<rparr>
      else None)"

definition healthcheck_failed :: "plugin \<Rightarrow> string \<Rightarrow> exn \<Rightarrow> state \<Rightarrow> (exn + bool) \<times> state" where
  "healthcheck_failed p url e s =
     (Inr False,
      log INFO (''healthcheck failed: url '' @ url @ '' for '' @ plugin_str p s
                  @ ''. Error: '' @ exn_str e) s)"

text \<open>\<^verbatim>\<open>Plugin.health_check\<close>. A value that is not a string has no usable
  \<^verbatim>\<open>startswith\<close>: the call raises.\<close>

definition health_check :: "plugin \<Rightarrow> user option \<Rightarrow> state \<Rightarrow> (exn + bool) \<times> state" where
  "health_check p usr s =
     (case get_health_check_url p usr s of
        (None, s1) \<Rightarrow> (Inl (raise NotImplementedError []), s1)
      | (Some (PStr url), s1) \<Rightarrow>
          (if url \<noteq> [] \<and> startswith url ''http''
           then
             (if STAGE_CI (django_settings p) \<or> MOCK_CONNECTIONS (django_settings p)
              then (Inr True, s1)
              else
                (let s2 = log INFO (''healthcheck url '' @ url @ '' for '' @ plugin_str p s1) s1
                 in case requests_head p url of
                      Head_raises e \<Rightarrow>
                        (if isinstance_any e [ConnectionError, Timeout, HTTPError]
                         then healthcheck_failed p url e s2
                         else (Inl e, s2))
                    | Head_returns resp \<Rightarrow>
                        (if 400 \<le> status_code resp \<and> status_code resp \<le> 408
                         then (Inr True, s2)
                         else (case raise_for_status resp of
                                 Some e \<Rightarrow> healthcheck_failed p url e s2
                               | None \<Rightarrow> (Inr True, s2)))))
           else (Inl (raise NotImplementedError []), s1))
      | (Some (PBytes bs), s1) \<Rightarrow>
          (if bs \<noteq> [] then (Inl (raise TypeError ''startswith''), s1)
           else (Inl (raise NotImplementedError []), s1))
      | (Some v, s1) \<Rightarrow>
          (if truthy v then (Inl (raise AttributeError ''startswith''), s1)
           else (Inl (raise NotImplementedError []), s1)))"

section \<open>The aggregation task: \<^verbatim>\<open>api_app/engines_manager/tasks.py\<close>\<close>

text \<open>
  Modelled from the spec: \<^verbatim>\<open>data_model.merge\<close> belongs to the data model classes, which
  are not among the sources. The spec: the returned payload is merged "into the job's
  aggregated data model using overwrite semantics (new keys replace, not append)", with
  "\<^verbatim>\<open>append=False\<close> meaning overwrite-on-merge". With \<^verbatim>\<open>append=False\<close> each key of the
  payload takes the payload's value and every other key keeps its own; with
  \<^verbatim>\<open>append=True\<close> a list-valued entry is extended by a list-valued new one instead.
\<close>

definition merge :: "(string \<rightharpoonup> pyval) \<Rightarrow> (string \<rightharpoonup> pyval) \<Rightarrow> bool \<Rightarrow> (string \<rightharpoonup> pyval)" where
  "merge dm other do_append =
     (\<lambda>k. case other k of
             None \<Rightarrow> dm k
           | Some v \<Rightarrow>
               (if do_append
                then (case (dm k, v) of
                        (Some (PList old), PList new) \<Rightarrow> Some (PList (old @ new))
                      | _ \<Rightarrow> Some v)
                else Some v))"

text \<open>
  \<^verbatim>\<open>execute_engine_module\<close>. \<open>import_string path\<close> is the class found at the path, given
  here by what its instance's \<^verbatim>\<open>run()\<close> returns or raises for a job, or the
  \<^verbatim>\<open>ImportError\<close> of a path that names nothing.
\<close>

definition execute_engine_module ::
  "(string \<Rightarrow> exn + (job \<Rightarrow> exn + (string \<rightharpoonup> pyval))) \<Rightarrow> int \<Rightarrow> string
     \<Rightarrow> (int \<times> job) list \<Rightarrow> (exn + unit) \<times> (int \<times> job) list" where
  "execute_engine_module import_string job_pk path job_store =
     (case map_of job_store job_pk of
        None \<Rightarrow> (Inl (raise DoesNotExist ''Job matching query does not exist.''), job_store)
      | Some j \<Rightarrow>
          (case import_string path of
             Inl e \<Rightarrow> (Inl e, job_store)
           | Inr engine_module \<Rightarrow>
               (case engine_module j of
                  Inl e \<Rightarrow> (Inl e, job_store)
                | Inr module_result \<Rightarrow>
                    (Inr (),
                     AList.update job_pk
                       (j\<lparr>data_model := merge (data_model j) module_result False\<rparr>) job_store))))"

section \<open>Observations on an execution\<close>

text \<open>The row of the instance's report in the Report Store, if the instance has a report.\<close>

definition persisted :: "state \<Rightarrow> abstract_report option" where
  "persisted s =
     (case self_report s of
        None \<Rightarrow> None
      | Some r \<Rightarrow> (if pk r < length (report_rows s) then Some (report_rows s ! pk r) else None))"

text \<open>How often \<^verbatim>\<open>after_run\<close> was entered, and how often the organization configuration's
  disable action was called.\<close>

fun is_call_after_run :: "event \<Rightarrow> bool" where
  "is_call_after_run Call_after_run = True"
| "is_call_after_run ev = False"

fun is_org_disable :: "event \<Rightarrow> bool" where
  "is_org_disable (Org_disable_for_rate_limit org) = True"
| "is_org_disable ev = False"

definition after_run_calls :: "state \<Rightarrow> nat" where
  "after_run_calls s = length (filter is_call_after_run (trace s))"

definition org_disable_calls :: "state \<Rightarrow> nat" where
  "org_disable_calls s = length (filter is_org_disable (trace s))"

text \<open>\<^verbatim>\<open>isinstance(x, typing.List)\<close>, and the elements the success path encodes.\<close>

fun is_list :: "pyval \<Rightarrow> bool" where
  "is_list (PList xs) = True"
| "is_list v = False"

fun is_file_or_bytes :: "pyval \<Rightarrow> bool" where
  "is_file_or_bytes (PFile nm bs) = True"
| "is_file_or_bytes (PBytes bs) = True"
| "is_file_or_bytes v = False"

fun binary_data :: "pyval \<Rightarrow> byte list" where
  "binary_data (PFile nm bs) = bs"
| "binary_data (PBytes bs) = bs"
| "binary_data v = []"

text \<open>What the body of the \<^verbatim>\<open>try\<close> in \<^verbatim>\<open>start\<close> comes to for a job: the first of
  \<^verbatim>\<open>config\<close>, \<^verbatim>\<open>before_run\<close> and \<^verbatim>\<open>run\<close> to raise decides, else the result of \<^verbatim>\<open>run\<close>.\<close>

definition try_outcome :: "plugin \<Rightarrow> job \<Rightarrow> (string \<times> pyval) list \<Rightarrow> exn + pyval" where
  "try_outcome p j runtime_configuration =
     (case read_configured_params p (job_user j) runtime_configuration of
        Inl e \<Rightarrow> Inl e
      | Inr ps \<Rightarrow> (case before_run_impl p of Some e \<Rightarrow> Inl e | None \<Rightarrow> run_impl p))"

text \<open>The parameter the circuit breaker looks at: the first whose name contains
  \<^verbatim>\<open>api_key\<close>.\<close>

definition api_key_parameter :: "parameter list \<Rightarrow> parameter option" where
  "api_key_parameter ps = List.find (\<lambda>q. contains (param_name q) ''api_key'') ps"

text \<open>A personal API key in use, in the words of the spec: "personal (non-org, explicitly
  required-and-supplied)".\<close>

definition spec_personal_api_key :: "parameter list \<Rightarrow> bool" where
  "spec_personal_api_key ps =
     (case api_key_parameter ps of
        None \<Rightarrow> False
      | Some k \<Rightarrow> \<not> is_from_org k \<and> required k \<and> truthy (param_value k))"

text \<open>A personal API key in use, as the source's comment has it, negated: "we do not have
  api keys OR the api key was org based OR if the api key is not actually required and we
  do not have it set".\<close>

definition personal_api_key :: "parameter list \<Rightarrow> bool" where
  "personal_api_key ps =
     (case api_key_parameter ps of
        None \<Rightarrow> False
      | Some k \<Rightarrow> \<not> is_from_org k \<and> (required k \<or> truthy (param_value k)))"

text \<open>The state in which \<^verbatim>\<open>start\<close> enters its \<^verbatim>\<open>try\<close> for a job that resolved: the job
  id bound, the job cached, the empty report created and bound.\<close>

definition created ::
  "(int \<times> job) list \<Rightarrow> abstract_report list \<Rightarrow> nat \<Rightarrow> (string \<times> pyval) list
     \<Rightarrow> int \<Rightarrow> job \<Rightarrow> string \<Rightarrow> state" where
  "created job_store rows now class_attrs job_id j task =
     (let (r, s2) = generate_empty_report job_id task RUNNING
                      ((init job_store rows now class_attrs)\<lparr>self_job_id := Some job_id,
                                                              self_job := Some j\<rparr>)
      in s2\<lparr>self_report := Some r\<rparr>)"

text \<open>
  Two summaries, proved of the code in the lemmas below: the report as
  \<^verbatim>\<open>generate_empty_report\<close> makes it, and what the \<^verbatim>\<open>except Exception\<close> and \<^verbatim>\<open>else\<close>
  clauses of \<^verbatim>\<open>start\<close> make of a report for an outcome of the \<^verbatim>\<open>try\<close>.
\<close>

definition new_report :: "abstract_report list \<Rightarrow> int \<Rightarrow> string \<Rightarrow> nat \<Rightarrow> abstract_report" where
  "new_report rows job_id task now =
     \<lparr>pk = length rows, report_job = job_id, task_id = task, status = RUNNING,
      report = PDict [], errors = [], start_time = Some now, end_time = None\<rparr>"

definition handled_report :: "abstract_report \<Rightarrow> exn + pyval \<Rightarrow> abstract_report" where
  "handled_report r outcome =
     (case outcome of
        Inr v \<Rightarrow> r\<lparr>report := report_content v, status := SUCCESS\<rparr>
      | Inl e \<Rightarrow> (if isinstance e Exception
                  then r\<lparr>errors := errors r @ [exn_str e], status := FAILED\<rparr> else r))"

section \<open>Example inputs\<close>

text \<open>
  A user who is a member of an organization, the job of that user, an API-key parameter
  in its personal and its organization-sourced form, an HTTP 429 error, and a plugin
  whose hooks all return; the scenarios below are variations of these.
\<close>

definition example_user :: user where
  "example_user = \<lparr>username = ''analyst'', membership = Some ''acme''\<rparr>"

definition example_job :: job where
  "example_job = \<lparr>job_user = example_user, data_model = Map.empty\<rparr>"

definition personal_key :: parameter where
  "personal_key = \<lparr>param_name = ''api_key_name'', param_value = PStr ''secret'', is_secret = True,
                    required = True, is_from_org = False, configured = True\<rparr>"

definition org_key :: parameter where
  "org_key = personal_key\<lparr>is_from_org := True\<rparr>"

definition optional_personal_key :: parameter where
  "optional_personal_key = personal_key\<lparr>required := False\<rparr>"

definition http_429 :: exn where
  "http_429 = \<lparr>exn_class = HTTPError, exn_str = ''429 Client Error: Too Many Requests'',
                response = Response 429\<rparr>"

definition example_plugin :: plugin where
  "example_plugin =
     \<lparr>class_name = ''X'', config_model_name = ''AnalyzerConfig'', get_exceptions_to_catch = [],
      read_configured_params = (\<lambda>u rc. Inr []), annotated_parameters = (\<lambda>u. []),
      get_or_create_org_configuration = (\<lambda>org. \<lparr>rate_limit_timeout = Some 3600\<rparr>),
      before_run_impl = None, run_impl = Inr (PDict []), after_run_save_raises = None,
      requests_head = (\<lambda>url. Head_returns \<lparr>status_code = 200, http_error_msg = []\<rparr>),
      django_settings = \<lparr>STAGE_CI = False, MOCK_CONNECTIONS = False\<rparr>\<rparr>"

text \<open>An error a plugin declares, an interrupt (not an \<^verbatim>\<open>Exception\<close>), an undeclared error,
  and a plugin whose \<^verbatim>\<open>run()\<close> meets HTTP 429 with given resolved parameters.\<close>

definition AnalyzerRunException :: pyclass where
  "AnalyzerRunException =
     Cls ''api_app.analyzers_manager.exceptions.AnalyzerRunException'' [Exception]"

definition run_exception :: exn where
  "run_exception = raise AnalyzerRunException ''malformed target''"

definition keyboard_interrupt :: exn where
  "keyboard_interrupt = raise KeyboardInterrupt []"

definition runtime_error :: exn where
  "runtime_error = raise RuntimeError ''boom''"

definition plugin_429 :: "parameter list \<Rightarrow> plugin" where
  "plugin_429 ps =
     example_plugin\<lparr>read_configured_params := (\<lambda>u rc. Inr ps), run_impl := Inl http_429\<rparr>"

text \<open>A plugin with a probe URL among its parameters, and the answer its HEAD request
  gets.\<close>

definition url_parameter :: parameter where
  "url_parameter = \<lparr>param_name = ''url_to_check'', param_value = PStr ''https://service.example'',
                     is_secret = False, required = True, is_from_org = False, configured = True\<rparr>"

definition plugin_with_url :: "head_result \<Rightarrow> plugin" where
  "plugin_with_url answer =
     example_plugin\<lparr>annotated_parameters := (\<lambda>u. [url_parameter]),
                    requests_head := (\<lambda>url. answer)\<rparr>"

definition timeout_error :: exn where
  "timeout_error = raise Timeout ''Read timed out.''"

text \<open>A job with an aggregated data model, an engine module that returns new tags, and
  the entry of a job's data model under a key.\<close>

definition example_data_job :: job where
  "example_data_job =
     \<lparr>job_user = example_user,
      data_model = [''verdict'' \<mapsto> PStr ''clean'', ''tags'' \<mapsto> PList [PStr ''old'']]\<rparr>"

definition example_import_string :: "string \<Rightarrow> exn + (job \<Rightarrow> exn + (string \<rightharpoonup> pyval))" where
  "example_import_string path =
     (if path = ''api_app.engines_manager.engines.evaluation.EvaluationEngineModule''
      then Inr (\<lambda>j. Inr [''tags'' \<mapsto> PList [PStr ''new'']])
      else Inl (raise ImportError path))"

definition data_model_entry :: "(int \<times> job) list \<Rightarrow> int \<Rightarrow> string \<Rightarrow> pyval option" where
  "data_model_entry job_store job_pk k =
     (case map_of job_store job_pk of None \<Rightarrow> None | Some j \<Rightarrow> data_model j k)"

section \<open>Lemmas on the phases of an execution\<close>

lemma mro_self: "c \<in> set (mro c)"
  by (cases c) simp

lemma mro_trans: "c \<in> set (mro d) \<Longrightarrow> set (mro c) \<subseteq> set (mro d)"
proof (induction d)
  case (Cls n bases)
  show ?case
  proof (cases "c = Cls n bases")
    case True
    then show ?thesis by simp
  next
    case False
    with Cls.prems obtain b where b: "b \<in> set bases" "c \<in> set (mro b)"
      by auto
    with Cls.IH have "set (mro c) \<subseteq> set (mro b)" by blast
    with b show ?thesis by auto
  qed
qed

lemma isinstance_trans: "isinstance e c \<Longrightarrow> d \<in> set (mro c) \<Longrightarrow> isinstance e d"
  using mro_trans by (auto simp: isinstance_def)

lemma HTTPError_is_Exception: "isinstance e HTTPError \<Longrightarrow> isinstance e Exception"
  by (erule isinstance_trans) (simp add: HTTPError_def RequestException_def OSError_def Exception_def)

lemma fold_bind_parameter:
  "fold bind_parameter ps s =
     s\<lparr>self_attrs := fold (\<lambda>q. AList.update (if is_secret q then CHR ''_'' # param_name q else param_name q)
                                (param_value q)) ps (self_attrs s)\<rparr>"
  by (induction ps arbitrary: s) (simp_all add: bind_parameter_def Let_def)

lemma get_job_cached: "self_job s = Some j \<Longrightarrow> get_job s = (Inr j, s)"
  by (simp add: get_job_def)

lemma log_error_frame: "log_error p e s = s\<lparr>trace := trace (log_error p e s)\<rparr>"
  by (simp add: log_error_def log_def)

lemma disable_frame:
  "self_job s = Some j \<Longrightarrow>
   disable_for_rate_limit p s =
     (fst (disable_for_rate_limit p s), s\<lparr>trace := trace (snd (disable_for_rate_limit p s))\<rparr>)"
  by (simp add: disable_for_rate_limit_def get_job_def log_def Let_def split: option.splits)

lemma disable_result:
  "self_job s = Some j \<Longrightarrow> self_parameters s = Some ps \<Longrightarrow>
   fst (disable_for_rate_limit p s) = Inr ()"
  by (simp add: disable_for_rate_limit_def get_job_def log_def Let_def split: option.splits)

lemma disable_after_run_calls:
  "self_job s = Some j \<Longrightarrow>
   after_run_calls (snd (disable_for_rate_limit p s)) = after_run_calls s"
  by (simp add: disable_for_rate_limit_def get_job_def log_def Let_def after_run_calls_def split: option.splits)

lemma disable_org_disable_calls:
  "self_job s = Some j \<Longrightarrow> self_parameters s = Some ps \<Longrightarrow>
   org_disable_calls (snd (disable_for_rate_limit p s)) =
     org_disable_calls s +
       (case membership (job_user j) of
          None \<Rightarrow> 0
        | Some org \<Rightarrow>
            (case rate_limit_timeout (get_or_create_org_configuration p org) of
               None \<Rightarrow> 0
             | Some t \<Rightarrow> if personal_api_key ps then 0 else 1))"
  by (simp add: disable_for_rate_limit_def get_job_def log_def Let_def org_disable_calls_def
        personal_api_key_def api_key_parameter_def split: option.splits)

lemma log_error_after_run_calls: "after_run_calls (log_error p e s) = after_run_calls s"
  by (simp add: log_error_def log_def after_run_calls_def)

lemma log_error_org_disable_calls: "org_disable_calls (log_error p e s) = org_disable_calls s"
  by (simp add: log_error_def log_def org_disable_calls_def)


lemma disable_frame_ex:
  "self_job s = Some j \<Longrightarrow> \<exists>res T. disable_for_rate_limit p s = (res, s\<lparr>trace := T\<rparr>)"
  using disable_frame by blast

lemma after_run_failed_state:
  assumes "self_job s = Some j" and "self_report s = Some r" and "pk r < length (report_rows s)"
  shows "\<exists>res T. after_run_failed p e s =
     (res, s\<lparr>self_report := Some (r\<lparr>errors := errors r @ [exn_str e], status := FAILED\<rparr>),
             report_rows := (report_rows s)[pk r := (report_rows s ! pk r)
                                \<lparr>status := FAILED, errors := errors r @ [exn_str e]\<rparr>],
             trace := T\<rparr>)"
proof -
  define r1 where "r1 = r\<lparr>errors := errors r @ [exn_str e], status := FAILED\<rparr>"
  define s1 where "s1 = save (Some [''status'', ''errors'']) r1 (s\<lparr>self_report := Some r1\<rparr>)"
  have s1: "s1 = s\<lparr>self_report := Some r1,
             report_rows := (report_rows s)[pk r := (report_rows s ! pk r)
                                \<lparr>status := FAILED, errors := errors r @ [exn_str e]\<rparr>]\<rparr>"
    using assms by (simp add: s1_def r1_def save_def update_row_def)
  have j1: "self_job s1 = Some j" using assms by (simp add: s1)
  define step where "step = (if is_rate_limit e then disable_for_rate_limit p s1
                    else (Inr (), log_error p e s1))"
  obtain res T where d: "step = (res, s1\<lparr>trace := T\<rparr>)"
  proof (cases "is_rate_limit e")
    case True
    with disable_frame_ex[OF j1, of p] that show ?thesis by (auto simp: step_def)
  next
    case False
    with log_error_frame[of p e s1] that show ?thesis by (auto simp: step_def)
  qed
  have "after_run_failed p e s =
      (case step of
                (Inl e', s2) \<Rightarrow> (Inl e', s2)
              | (Inr u, s2) \<Rightarrow>
                  (if STAGE_CI (django_settings p) then (Inl e, s2) else (Inr (), s2)))"
    unfolding after_run_failed_def step_def s1_def r1_def using assms(2) by (simp add: Let_def)
  then show ?thesis
    unfolding d by (cases res) (auto simp: s1 r1_def)
qed


lemma start_try_cached:
  assumes "self_job s = Some j"
  shows "\<exists>ps' as'. start_try p rc s = (try_outcome p j rc, s\<lparr>self_parameters := ps', self_attrs := as'\<rparr>)
           \<and> (\<forall>ps. read_configured_params p (job_user j) rc = Inr ps \<longrightarrow> ps' = Some ps)"
proof (cases "read_configured_params p (job_user j) rc")
  case (Inl e)
  then have "start_try p rc s = (try_outcome p j rc, s\<lparr>self_parameters := self_parameters s, self_attrs := self_attrs s\<rparr>)"
    using assms by (simp add: start_try_def config_def get_job_cached try_outcome_def)
  with Inl show ?thesis
    by (intro exI[of _ "self_parameters s"] exI[of _ "self_attrs s"]) simp
next
  case (Inr ps)
  then have "start_try p rc s = (try_outcome p j rc,
       s\<lparr>self_parameters := Some ps,
         self_attrs := fold (\<lambda>q. AList.update (if is_secret q then CHR ''_'' # param_name q else param_name q)
                                (param_value q)) ps (self_attrs s)\<rparr>)"
    using assms
    by (simp add: start_try_def config_def get_job_cached try_outcome_def fold_bind_parameter
          before_run_def run_def split: option.splits)
  with Inr show ?thesis
    by (intro exI[of _ "Some ps"] exI[of _ "fold (\<lambda>q. AList.update (if is_secret q then CHR ''_'' # param_name q else param_name q)
                                (param_value q)) ps (self_attrs s)"]) simp
qed

lemma after_run_success_state:
  assumes "self_report s = Some r" and "pk r < length (report_rows s)"
  shows "after_run_success content s =
     (Inr (), s\<lparr>self_report := Some (r\<lparr>report := report_content content, status := SUCCESS\<rparr>),
             report_rows := (report_rows s)[pk r := (report_rows s ! pk r)
                                \<lparr>status := SUCCESS, report := report_content content\<rparr>]\<rparr>)"
  using assms by (simp add: after_run_success_def save_def update_row_def Let_def)

lemma after_run_state:
  assumes "self_report s = Some r" and "pk r < length (report_rows s)"
  shows "after_run p s =
     (case after_run_save_raises p of
        Some e \<Rightarrow> (Inl e, s\<lparr>self_report := Some (r\<lparr>end_time := Some (clock s)\<rparr>),
                           trace := trace s @ [Call_after_run]\<rparr>)
      | None \<Rightarrow> (Inr (), s\<lparr>self_report := Some (r\<lparr>end_time := Some (clock s)\<rparr>),
                           report_rows := (report_rows s)[pk r := r\<lparr>end_time := Some (clock s)\<rparr>],
                           trace := trace s @ [Call_after_run]\<rparr>))"
  using assms by (simp add: after_run_def save_def update_row_def Let_def split: option.splits)

lemma created_eq:
  "created job_store rows now attrs job_id j task =
     \<lparr>jobs = job_store,
      report_rows = rows @ [\<lparr>pk = length rows, report_job = job_id, task_id = task, status = RUNNING,
               report = PDict [], errors = [], start_time = Some now, end_time = None\<rparr>],
      clock = now, self_job_id = Some job_id, self_job = Some j,
      self_report = Some \<lparr>pk = length rows, report_job = job_id, task_id = task, status = RUNNING,
               report = PDict [], errors = [], start_time = Some now, end_time = None\<rparr>,
      self_parameters = None, self_attrs = attrs, trace = []\<rparr>"
  by (simp add: created_def generate_empty_report_def init_def Let_def)

lemma start_resolved:
  assumes "map_of job_store job_id = Some j"
  shows "start p job_id rc task (init job_store rows now attrs) =
     (let (outcome, s4) = start_handlers p (start_try p rc (created job_store rows now attrs job_id j task));
          (final, s5) = after_run p s4
      in case final of Inl e \<Rightarrow> (Inl e, s5) | Inr u \<Rightarrow> (outcome, s5))"
  using assms
  by (simp add: start_def get_job_def init_def created_def Let_def split_def)


lemma save_fields [simp]:
  "self_job (save f r s) = self_job s"
  "self_parameters (save f r s) = self_parameters s"
  "self_report (save f r s) = self_report s"
  "trace (save f r s) = trace s"
  "clock (save f r s) = clock s"
  by (simp_all add: save_def)

lemma after_run_failed_result:
  assumes "self_job s = Some j" and "self_report s = Some r"
    and "is_rate_limit e \<longrightarrow> self_parameters s \<noteq> None"
  shows "fst (after_run_failed p e s) = (if STAGE_CI (django_settings p) then Inl e else Inr ())"
proof (cases "is_rate_limit e")
  case True
  with assms obtain ps where "self_parameters s = Some ps" by auto
  then have "fst (disable_for_rate_limit p
               (save (Some [''status'', ''errors'']) (r\<lparr>errors := errors r @ [exn_str e], status := FAILED\<rparr>)
                  (s\<lparr>self_report := Some (r\<lparr>errors := errors r @ [exn_str e], status := FAILED\<rparr>)\<rparr>))) = Inr ()"
    using assms(1) by (intro disable_result[where j=j and ps=ps]) simp_all
  with True assms(2) show ?thesis
    by (simp add: after_run_failed_def Let_def split_def)
next
  case False
  with assms(2) show ?thesis
    by (simp add: after_run_failed_def Let_def)
qed

lemma after_run_failed_after_run_calls:
  assumes "self_job s = Some j" and "self_report s = Some r"
  shows "after_run_calls (snd (after_run_failed p e s)) = after_run_calls s"
proof -
  let ?s1 = "save (Some [''status'', ''errors'']) (r\<lparr>errors := errors r @ [exn_str e], status := FAILED\<rparr>)
                  (s\<lparr>self_report := Some (r\<lparr>errors := errors r @ [exn_str e], status := FAILED\<rparr>)\<rparr>)"
  have a: "after_run_calls ?s1 = after_run_calls s" by (simp add: after_run_calls_def)
  have j: "self_job ?s1 = Some j" using assms by simp
  show ?thesis
    using assms(2) a disable_after_run_calls[OF j, of p] log_error_after_run_calls[of p e ?s1]
    by (simp add: after_run_failed_def Let_def split_def split: sum.splits)
qed

lemma after_run_failed_org_disable_calls:
  assumes "self_job s = Some j" and "self_report s = Some r" and "self_parameters s = Some ps"
  shows "org_disable_calls (snd (after_run_failed p e s)) =
     org_disable_calls s +
       (if is_rate_limit e
        then (case membership (job_user j) of
                None \<Rightarrow> 0
              | Some org \<Rightarrow>
                  (case rate_limit_timeout (get_or_create_org_configuration p org) of
                     None \<Rightarrow> 0
                   | Some t \<Rightarrow> if personal_api_key ps then 0 else 1))
        else 0)"
proof -
  let ?s1 = "save (Some [''status'', ''errors'']) (r\<lparr>errors := errors r @ [exn_str e], status := FAILED\<rparr>)
                  (s\<lparr>self_report := Some (r\<lparr>errors := errors r @ [exn_str e], status := FAILED\<rparr>)\<rparr>)"
  have a: "org_disable_calls ?s1 = org_disable_calls s" by (simp add: org_disable_calls_def)
  have j: "self_job ?s1 = Some j" using assms by simp
  have q: "self_parameters ?s1 = Some ps" using assms by simp
  show ?thesis
    using assms(2) a disable_org_disable_calls[OF j q, of p] log_error_org_disable_calls[of p e ?s1]
    by (simp add: after_run_failed_def Let_def split_def split: sum.splits)
qed

lemma handlers_created:
  assumes r0: "r0 = \<lparr>pk = length rows, report_job = job_id, task_id = task, status = RUNNING,
               report = PDict [], errors = [], start_time = Some now, end_time = None\<rparr>"
    and rH: "rH = (case try_outcome p j rc of
                     Inr v \<Rightarrow> r0\<lparr>report := report_content v, status := SUCCESS\<rparr>
                   | Inl e \<Rightarrow> if isinstance e Exception
                             then r0\<lparr>errors := [exn_str e], status := FAILED\<rparr> else r0)"
  shows "\<exists>res ps' as' T.
     start_handlers p (start_try p rc (created job_store rows now attrs job_id j task)) =
       (res, \<lparr>jobs = job_store, report_rows = rows @ [rH], clock = now,
              self_job_id = Some job_id, self_job = Some j, self_report = Some rH,
              self_parameters = ps', self_attrs = as', trace = T\<rparr>)
     \<and> filter is_call_after_run T = []
     \<and> (\<forall>v. try_outcome p j rc = Inr v \<longrightarrow> res = Inr () \<and> T = [])
     \<and> (\<forall>e. try_outcome p j rc = Inl e \<and> \<not> isinstance e Exception \<longrightarrow> res = Inl e \<and> T = [])
     \<and> (\<forall>e ps. try_outcome p j rc = Inl e \<and> isinstance e Exception
              \<and> read_configured_params p (job_user j) rc = Inr ps \<longrightarrow>
            res = (if STAGE_CI (django_settings p) then Inl e else Inr ())
            \<and> length (filter is_org_disable T) =
                (if is_rate_limit e
                 then (case membership (job_user j) of
                         None \<Rightarrow> 0
                       | Some org \<Rightarrow>
                           (case rate_limit_timeout (get_or_create_org_configuration p org) of
                              None \<Rightarrow> 0
                            | Some t \<Rightarrow> if personal_api_key ps then 0 else 1))
                 else 0))"
proof -
  let ?s3 = "created job_store rows now attrs job_id j task"
  have j3: "self_job ?s3 = Some j" by (simp add: created_eq)
  from start_try_cached[OF j3, of p rc] obtain ps' as' where
    st: "start_try p rc ?s3 = (try_outcome p j rc, ?s3\<lparr>self_parameters := ps', self_attrs := as'\<rparr>)"
    and pp: "\<forall>ps. read_configured_params p (job_user j) rc = Inr ps \<longrightarrow> ps' = Some ps"
    by blast
  define s3' where "s3' = ?s3\<lparr>self_parameters := ps', self_attrs := as'\<rparr>"
  have s3': "s3' = \<lparr>jobs = job_store, report_rows = rows @ [r0], clock = now,
              self_job_id = Some job_id, self_job = Some j, self_report = Some r0,
              self_parameters = ps', self_attrs = as', trace = []\<rparr>"
    by (simp add: s3'_def created_eq r0)
  have f: "self_job s3' = Some j" "self_report s3' = Some r0" "pk r0 < length (report_rows s3')"
    by (simp_all add: s3' r0)
  show ?thesis
  proof (cases "try_outcome p j rc")
    case (Inr v)
    have "start_handlers p (start_try p rc ?s3) = after_run_success v s3'"
      by (simp add: st start_handlers_def Inr s3'_def)
    also have "\<dots> = (Inr (), \<lparr>jobs = job_store, report_rows = rows @ [rH], clock = now,
              self_job_id = Some job_id, self_job = Some j, self_report = Some rH,
              self_parameters = ps', self_attrs = as', trace = []\<rparr>)"
      by (simp add: after_run_success_state[OF f(2) f(3)]) (simp add: s3' r0 rH Inr)
    finally show ?thesis using Inr by auto
  next
    case (Inl e)
    show ?thesis
    proof (cases "isinstance e Exception")
      case False
      have "start_handlers p (start_try p rc ?s3) = (Inl e, s3')"
        by (simp add: st start_handlers_def Inl False s3'_def)
      also have "s3' = \<lparr>jobs = job_store, report_rows = rows @ [rH], clock = now,
              self_job_id = Some job_id, self_job = Some j, self_report = Some rH,
              self_parameters = ps', self_attrs = as', trace = []\<rparr>"
        by (simp add: s3' rH Inl False)
      finally show ?thesis using Inl False by auto
    next
      case True
      have h: "start_handlers p (start_try p rc ?s3) = after_run_failed p e s3'"
        by (simp add: st start_handlers_def Inl True s3'_def)
      from after_run_failed_state[OF f, of p e] obtain res T where
        a: "after_run_failed p e s3' =
             (res, s3'\<lparr>self_report := Some (r0\<lparr>errors := errors r0 @ [exn_str e], status := FAILED\<rparr>),
                 report_rows := (report_rows s3')[pk r0 := (report_rows s3' ! pk r0)
                                \<lparr>status := FAILED, errors := errors r0 @ [exn_str e]\<rparr>],
                 trace := T\<rparr>)"
        by blast
      have a': "after_run_failed p e s3' = (res, \<lparr>jobs = job_store, report_rows = rows @ [rH], clock = now,
              self_job_id = Some job_id, self_job = Some j, self_report = Some rH,
              self_parameters = ps', self_attrs = as', trace = T\<rparr>)"
        unfolding a by (simp add: s3' r0 rH Inl True)
      have T: "T = trace (snd (after_run_failed p e s3'))" and res: "res = fst (after_run_failed p e s3')"
        by (simp_all add: a')
      have z: "after_run_calls s3' = 0" "org_disable_calls s3' = 0"
        by (simp_all add: s3' after_run_calls_def org_disable_calls_def)
      have c1: "filter is_call_after_run T = []"
        using after_run_failed_after_run_calls[OF f(1) f(2), of p e] z(1)
        by (simp add: after_run_calls_def a')
      have c2: "res = (if STAGE_CI (django_settings p) then Inl e else Inr ())
            \<and> length (filter is_org_disable T) =
                (if is_rate_limit e
                 then (case membership (job_user j) of
                         None \<Rightarrow> 0
                       | Some org \<Rightarrow>
                           (case rate_limit_timeout (get_or_create_org_configuration p org) of
                              None \<Rightarrow> 0
                            | Some t \<Rightarrow> if personal_api_key ps then 0 else 1))
                 else 0)"
        if "read_configured_params p (job_user j) rc = Inr ps" for ps
      proof -
        from that pp have q: "self_parameters s3' = Some ps" by (simp add: s3')
        then have q': "is_rate_limit e \<longrightarrow> self_parameters s3' \<noteq> None" by simp
        show ?thesis
          using after_run_failed_result[OF f(1) f(2) q', of p]
            after_run_failed_org_disable_calls[OF f(1) f(2) q, of p e]
            z(2)
          by (simp add: org_disable_calls_def a')
      qed
      show ?thesis
        unfolding h a' using c1 c2 Inl True by auto
    qed
  qed
qed


lemma start_state:
  assumes job: "map_of job_store job_id = Some j"
    and r0: "r0 = \<lparr>pk = length rows, report_job = job_id, task_id = task, status = RUNNING,
               report = PDict [], errors = [], start_time = Some now, end_time = None\<rparr>"
    and rH: "rH = (case try_outcome p j rc of
                     Inr v \<Rightarrow> r0\<lparr>report := report_content v, status := SUCCESS\<rparr>
                   | Inl e \<Rightarrow> if isinstance e Exception
                             then r0\<lparr>errors := [exn_str e], status := FAILED\<rparr> else r0)"
  shows "\<exists>res ps' as' T.
     start_handlers p (start_try p rc (created job_store rows now attrs job_id j task)) =
       (res, \<lparr>jobs = job_store, report_rows = rows @ [rH], clock = now,
              self_job_id = Some job_id, self_job = Some j, self_report = Some rH,
              self_parameters = ps', self_attrs = as', trace = T\<rparr>)
     \<and> start p job_id rc task (init job_store rows now attrs) =
       ((case after_run_save_raises p of Some ea \<Rightarrow> Inl ea | None \<Rightarrow> res),
        \<lparr>jobs = job_store,
         report_rows = rows @ [case after_run_save_raises p of
                                 Some ea \<Rightarrow> rH | None \<Rightarrow> rH\<lparr>end_time := Some now\<rparr>],
         clock = now, self_job_id = Some job_id, self_job = Some j,
         self_report = Some (rH\<lparr>end_time := Some now\<rparr>),
         self_parameters = ps', self_attrs = as', trace = T @ [Call_after_run]\<rparr>)
     \<and> filter is_call_after_run T = []
     \<and> (\<forall>v. try_outcome p j rc = Inr v \<longrightarrow> res = Inr () \<and> T = [])
     \<and> (\<forall>e. try_outcome p j rc = Inl e \<and> \<not> isinstance e Exception \<longrightarrow> res = Inl e \<and> T = [])
     \<and> (\<forall>e ps. try_outcome p j rc = Inl e \<and> isinstance e Exception
              \<and> read_configured_params p (job_user j) rc = Inr ps \<longrightarrow>
            res = (if STAGE_CI (django_settings p) then Inl e else Inr ())
            \<and> length (filter is_org_disable T) =
                (if is_rate_limit e
                 then (case membership (job_user j) of
                         None \<Rightarrow> 0
                       | Some org \<Rightarrow>
                           (case rate_limit_timeout (get_or_create_org_configuration p org) of
                              None \<Rightarrow> 0
                            | Some t \<Rightarrow> if personal_api_key ps then 0 else 1))
                 else 0))"
proof -
  from handlers_created[OF r0 rH, of job_store attrs] obtain res ps' as' T where
    h: "start_handlers p (start_try p rc (created job_store rows now attrs job_id j task)) =
       (res, \<lparr>jobs = job_store, report_rows = rows @ [rH], clock = now,
              self_job_id = Some job_id, self_job = Some j, self_report = Some rH,
              self_parameters = ps', self_attrs = as', trace = T\<rparr>)"
    and rest: "filter is_call_after_run T = []
     \<and> (\<forall>v. try_outcome p j rc = Inr v \<longrightarrow> res = Inr () \<and> T = [])
     \<and> (\<forall>e. try_outcome p j rc = Inl e \<and> \<not> isinstance e Exception \<longrightarrow> res = Inl e \<and> T = [])
     \<and> (\<forall>e ps. try_outcome p j rc = Inl e \<and> isinstance e Exception
              \<and> read_configured_params p (job_user j) rc = Inr ps \<longrightarrow>
            res = (if STAGE_CI (django_settings p) then Inl e else Inr ())
            \<and> length (filter is_org_disable T) =
                (if is_rate_limit e
                 then (case membership (job_user j) of
                         None \<Rightarrow> 0
                       | Some org \<Rightarrow>
                           (case rate_limit_timeout (get_or_create_org_configuration p org) of
                              None \<Rightarrow> 0
                            | Some t \<Rightarrow> if personal_api_key ps then 0 else 1))
                 else 0))"
    by blast
  define s4 where "s4 = \<lparr>jobs = job_store, report_rows = rows @ [rH], clock = now,
              self_job_id = Some job_id, self_job = Some j, self_report = Some rH,
              self_parameters = ps', self_attrs = as', trace = T\<rparr>"
  have pkH: "pk rH = length rows"
    by (simp add: rH r0 split: sum.splits)
  have f: "self_report s4 = Some rH" "pk rH < length (report_rows s4)"
    by (simp_all add: s4_def pkH)
  have main: "start p job_id rc task (init job_store rows now attrs) =
       ((case after_run_save_raises p of Some ea \<Rightarrow> Inl ea | None \<Rightarrow> res),
        \<lparr>jobs = job_store,
         report_rows = rows @ [case after_run_save_raises p of
                                 Some ea \<Rightarrow> rH | None \<Rightarrow> rH\<lparr>end_time := Some now\<rparr>],
         clock = now, self_job_id = Some job_id, self_job = Some j,
         self_report = Some (rH\<lparr>end_time := Some now\<rparr>),
         self_parameters = ps', self_attrs = as', trace = T @ [Call_after_run]\<rparr>)"
    unfolding start_resolved[OF job] h s4_def[symmetric]
    by (simp add: after_run_state[OF f] split: option.splits) (simp add: s4_def pkH)
  from h main rest show ?thesis
    by (intro exI[of _ res] exI[of _ "ps'"] exI[of _ "as'"] exI[of _ T])
       (rule conjI, assumption, rule conjI, assumption, assumption)
qed

lemma report_content_non_list: "\<not> is_list content \<Longrightarrow> report_content content = content"
  by (cases content) simp_all

lemma encode_entry_eq:
  "encode_entry n = (if is_file_or_bytes n then PStr (b64encode (binary_data n)) else n)"
  by (cases n) simp_all

lemma try_outcome_run:
  "read_configured_params p (job_user j) rc = Inr ps \<Longrightarrow> before_run_impl p = None \<Longrightarrow>
   try_outcome p j rc = run_impl p"
  by (simp add: try_outcome_def)

lemma try_outcome_before_run:
  "read_configured_params p (job_user j) rc = Inr ps \<Longrightarrow> before_run_impl p = Some e \<Longrightarrow>
   try_outcome p j rc = Inl e"
  by (simp add: try_outcome_def)

lemma new_report_created:
  "self_report (created job_store rows now attrs job_id j task) = Some (new_report rows job_id task now)"
  by (simp add: created_eq new_report_def)

lemma handled_report_pk [simp]: "pk (handled_report r outcome) = pk r"
  by (simp add: handled_report_def split: sum.splits)

lemma start_summary:
  assumes job: "map_of job_store job_id = Some j"
  shows "\<exists>res ps' as' T.
     start_handlers p (start_try p rc (created job_store rows now attrs job_id j task)) =
       (res, \<lparr>jobs = job_store,
              report_rows = rows @ [handled_report (new_report rows job_id task now) (try_outcome p j rc)],
              clock = now, self_job_id = Some job_id, self_job = Some j,
              self_report = Some (handled_report (new_report rows job_id task now) (try_outcome p j rc)),
              self_parameters = ps', self_attrs = as', trace = T\<rparr>)
     \<and> start p job_id rc task (init job_store rows now attrs) =
       ((case after_run_save_raises p of Some ea \<Rightarrow> Inl ea | None \<Rightarrow> res),
        \<lparr>jobs = job_store,
         report_rows = rows @ [case after_run_save_raises p of
               Some ea \<Rightarrow> handled_report (new_report rows job_id task now) (try_outcome p j rc)
             | None \<Rightarrow> (handled_report (new_report rows job_id task now) (try_outcome p j rc))
                         \<lparr>end_time := Some now\<rparr>],
         clock = now, self_job_id = Some job_id, self_job = Some j,
         self_report = Some ((handled_report (new_report rows job_id task now) (try_outcome p j rc))
                         \<lparr>end_time := Some now\<rparr>),
         self_parameters = ps', self_attrs = as', trace = T @ [Call_after_run]\<rparr>)
     \<and> filter is_call_after_run T = []
     \<and> (\<forall>v. try_outcome p j rc = Inr v \<longrightarrow> res = Inr () \<and> T = [])
     \<and> (\<forall>e. try_outcome p j rc = Inl e \<and> \<not> isinstance e Exception \<longrightarrow> res = Inl e \<and> T = [])
     \<and> (\<forall>e ps. try_outcome p j rc = Inl e \<and> isinstance e Exception
              \<and> read_configured_params p (job_user j) rc = Inr ps \<longrightarrow>
            res = (if STAGE_CI (django_settings p) then Inl e else Inr ())
            \<and> length (filter is_org_disable T) =
                (if is_rate_limit e
                 then (case membership (job_user j) of
                         None \<Rightarrow> 0
                       | Some org \<Rightarrow>
                           (case rate_limit_timeout (get_or_create_org_configuration p org) of
                              None \<Rightarrow> 0
                            | Some t \<Rightarrow> if personal_api_key ps then 0 else 1))
                 else 0))"
proof -
  have rH: "handled_report (new_report rows job_id task now) (try_outcome p j rc) =
     (case try_outcome p j rc of
                     Inr v \<Rightarrow> (new_report rows job_id task now)\<lparr>report := report_content v, status := SUCCESS\<rparr>
                   | Inl e \<Rightarrow> if isinstance e Exception
                             then (new_report rows job_id task now)\<lparr>errors := [exn_str e], status := FAILED\<rparr>
                             else new_report rows job_id task now)"
    by (simp add: handled_report_def new_report_def split: sum.splits)
  show ?thesis
    by (rule start_state[OF job new_report_def rH])
qed


lemma start_final_report:
  assumes "map_of job_store job_id = Some j"
  shows "self_report (snd (start p job_id rc task (init job_store rows now attrs))) =
     Some ((handled_report (new_report rows job_id task now) (try_outcome p j rc))\<lparr>end_time := Some now\<rparr>)"
  using start_summary[OF assms(1), where p=p and rc=rc and rows=rows and now=now and attrs=attrs and task=task] by auto

lemma start_persisted:
  assumes "map_of job_store job_id = Some j"
  shows "persisted (snd (start p job_id rc task (init job_store rows now attrs))) =
     Some (case after_run_save_raises p of
             Some ea \<Rightarrow> handled_report (new_report rows job_id task now) (try_outcome p j rc)
           | None \<Rightarrow> (handled_report (new_report rows job_id task now) (try_outcome p j rc))
                       \<lparr>end_time := Some now\<rparr>)"
  using start_summary[OF assms(1), where p=p and rc=rc and rows=rows and now=now and attrs=attrs and task=task] by (auto simp: persisted_def new_report_def)

lemma start_after_run_calls:
  assumes "map_of job_store job_id = Some j"
  shows "after_run_calls (snd (start p job_id rc task (init job_store rows now attrs))) = 1"
  using start_summary[OF assms(1), where p=p and rc=rc and rows=rows and now=now and attrs=attrs and task=task] by (auto simp: after_run_calls_def)

lemma before_finally:
  assumes "map_of job_store job_id = Some j"
  shows "self_report (snd (start_handlers p (start_try p rc (created job_store rows now attrs job_id j task)))) =
           Some (handled_report (new_report rows job_id task now) (try_outcome p j rc))"
    and "after_run_calls (snd (start_handlers p (start_try p rc (created job_store rows now attrs job_id j task)))) = 0"
  using start_summary[OF assms(1), where p=p and rc=rc and rows=rows and now=now and attrs=attrs and task=task] by (auto simp: after_run_calls_def)

lemma start_result_returned:
  assumes "map_of job_store job_id = Some j" and "try_outcome p j rc = Inr v"
  shows "fst (start p job_id rc task (init job_store rows now attrs)) =
     (case after_run_save_raises p of Some ea \<Rightarrow> Inl ea | None \<Rightarrow> Inr ())"
  using start_summary[OF assms(1), where p=p and rc=rc and rows=rows and now=now and attrs=attrs and task=task] assms(2) by auto

lemma start_result_uncaught:
  assumes "map_of job_store job_id = Some j" and "try_outcome p j rc = Inl e"
    and "\<not> isinstance e Exception"
  shows "fst (start p job_id rc task (init job_store rows now attrs)) =
     (case after_run_save_raises p of Some ea \<Rightarrow> Inl ea | None \<Rightarrow> Inl e)"
  using start_summary[OF assms(1), where p=p and rc=rc and rows=rows and now=now and attrs=attrs and task=task] assms(2,3) by auto

lemma start_result_caught:
  assumes "map_of job_store job_id = Some j" and "try_outcome p j rc = Inl e"
    and "isinstance e Exception" and "read_configured_params p (job_user j) rc = Inr ps"
  shows "fst (start p job_id rc task (init job_store rows now attrs)) =
     (case after_run_save_raises p of
        Some ea \<Rightarrow> Inl ea
      | None \<Rightarrow> if STAGE_CI (django_settings p) then Inl e else Inr ())"
  using start_summary[OF assms(1), where p=p and rc=rc and rows=rows and now=now and attrs=attrs and task=task] assms(2,3,4) by auto

lemma start_org_disable_calls:
  assumes "map_of job_store job_id = Some j" and "try_outcome p j rc = Inl e"
    and "isinstance e Exception" and "read_configured_params p (job_user j) rc = Inr ps"
  shows "org_disable_calls (snd (start p job_id rc task (init job_store rows now attrs))) =
     (if is_rate_limit e
      then (case membership (job_user j) of
              None \<Rightarrow> 0
            | Some org \<Rightarrow>
                (case rate_limit_timeout (get_or_create_org_configuration p org) of
                   None \<Rightarrow> 0
                 | Some t \<Rightarrow> if personal_api_key ps then 0 else 1))
      else 0)"
  using start_summary[OF assms(1), where p=p and rc=rc and rows=rows and now=now and attrs=attrs and task=task] assms(2,3,4) by (auto simp: org_disable_calls_def)

lemma is_rate_limit_429: "isinstance e HTTPError \<Longrightarrow> response e = Response 429 \<Longrightarrow> is_rate_limit e"
  by (simp add: is_rate_limit_def)


lemma b64encode_Man: "b64encode [77, 97, 110] = ''TWFu''"
  by (simp add: b64_char_def b64_alphabet_def)

section \<open>The claims\<close>

text \<open>
  C1, as stated, for every execution of \<^verbatim>\<open>start\<close>: "the report reaches exactly one
  terminal status (SUCCESS or FAILED, never both, never remaining RUNNING) and
  \<^verbatim>\<open>after_run()\<close> is executed exactly once". Two executions show otherwise. With a job
  id that resolves to no job, \<^verbatim>\<open>start\<close> raises before its \<^verbatim>\<open>try\<close>: \<^verbatim>\<open>after_run\<close> is never
  entered and no report exists. With a \<^verbatim>\<open>run()\<close> that raises \<^verbatim>\<open>KeyboardInterrupt\<close>, which
  is not an \<^verbatim>\<open>Exception\<close>, the clause \<^verbatim>\<open>except Exception\<close> does not apply and the report
  is saved still RUNNING.
\<close>

theorem start_always_finalizes_counterexample:
  "after_run_calls (snd (start example_plugin 8 [] ''task'' (init [(7, example_job)] [] 100 []))) = 0
   \<and> persisted (snd (start example_plugin 8 [] ''task'' (init [(7, example_job)] [] 100 []))) = None
   \<and> map_option status
         (persisted (snd (start (example_plugin\<lparr>run_impl := Inl keyboard_interrupt\<rparr>) 7 [] ''task''
                            (init [(7, example_job)] [] 100 [])))) = Some RUNNING"
  by code_simp

text \<open>
  C1, amended. For every execution of \<^verbatim>\<open>start\<close> whose job id resolves to a job:
  \<^verbatim>\<open>after_run\<close> is entered exactly once, and not before the \<^verbatim>\<open>finally\<close>; the report has
  no end time before the \<^verbatim>\<open>finally\<close> and the end time \<^verbatim>\<open>now\<close> after it; and the status,
  in memory and in the Report Store alike, is SUCCESS when \<^verbatim>\<open>config\<close>, \<^verbatim>\<open>before_run\<close> and
  \<^verbatim>\<open>run\<close> all return, FAILED when one of them raises an \<^verbatim>\<open>Exception\<close>, and RUNNING only
  when one of them raises something that is not an \<^verbatim>\<open>Exception\<close>.
\<close>

theorem start_finalizes_once:
  fixes p job_id rc task job_store rows now attrs j
  defines "s' \<equiv> snd (start p job_id rc task (init job_store rows now attrs))"
    and "before_finally \<equiv> snd (start_handlers p (start_try p rc
                                  (created job_store rows now attrs job_id j task)))"
  assumes "map_of job_store job_id = Some j"
  shows "after_run_calls s' = 1 \<and> after_run_calls before_finally = 0
       \<and> (\<exists>b m r. self_report before_finally = Some b \<and> end_time b = None
              \<and> self_report s' = Some m \<and> end_time m = Some now
              \<and> persisted s' = Some r
              \<and> status m = (case try_outcome p j rc of
                               Inr v \<Rightarrow> SUCCESS
                             | Inl e \<Rightarrow> if isinstance e Exception then FAILED else RUNNING)
              \<and> status r = status m)"
  unfolding s'_def before_finally_def start_persisted[OF assms(3)] start_final_report[OF assms(3)]
    start_after_run_calls[OF assms(3)] before_finally[OF assms(3)]
  by (auto simp add: handled_report_def new_report_def split: option.splits sum.splits)

text \<open>
  C2. For every execution in which \<^verbatim>\<open>run()\<close> returns (the job resolves, \<^verbatim>\<open>config\<close> and
  \<^verbatim>\<open>before_run\<close> return, \<^verbatim>\<open>run\<close> returns \<open>content\<close>): the content of the persisted
  report is \<open>content\<close> itself when that is not a list; when it is a list, it is a list of
  the same length in which each \<^verbatim>\<open>File\<close> or \<^verbatim>\<open>bytes\<close> element is replaced by the base64
  text of its data and every other element is unchanged. The errors of the report, in
  memory and persisted, are those of the report as it was created: none.
\<close>

theorem success_content_and_errors:
  fixes p job_id rc task job_store rows now attrs
  defines "s' \<equiv> snd (start p job_id rc task (init job_store rows now attrs))"
  assumes "map_of job_store job_id = Some j"
    and "read_configured_params p (job_user j) rc = Inr ps"
    and "before_run_impl p = None"
    and "run_impl p = Inr content"
  shows "\<exists>r0 r m.
           self_report (created job_store rows now attrs job_id j task) = Some r0
         \<and> persisted s' = Some r \<and> self_report s' = Some m
         \<and> errors r = errors r0 \<and> errors m = errors r0 \<and> errors r0 = []
         \<and> report m = report r
         \<and> (\<not> is_list content \<longrightarrow> report r = content)
         \<and> (\<forall>xs. content = PList xs \<longrightarrow>
               (\<exists>ys. report r = PList ys \<and> length ys = length xs
                  \<and> (\<forall>i<length xs.
                        ys ! i = (if is_file_or_bytes (xs ! i)
                                  then PStr (b64encode (binary_data (xs ! i)))
                                  else xs ! i))))"
proof -
  have o: "try_outcome p j rc = Inr content"
    using assms by (simp add: try_outcome_run)
  have l: "report_content (PList xs) = PList (map encode_entry xs)" for xs by simp
  show ?thesis
    unfolding s'_def start_persisted[OF assms(2)] start_final_report[OF assms(2)] o new_report_created
    by (auto simp add: handled_report_def new_report_def report_content_non_list encode_entry_eq
          split: option.splits)
qed

text \<open>
  C3. For every execution in which \<^verbatim>\<open>run()\<close> raises an exception \<open>e\<close> (an instance of
  \<^verbatim>\<open>Exception\<close>, as the members of \<^verbatim>\<open>get_exceptions_to_catch()\<close> are by its docstring)
  whose type is in the plugin's allow-list: the errors of the report are those of the
  report as it was created followed by the one entry \<^verbatim>\<open>str(e)\<close>, and the status is FAILED,
  in memory and in the Report Store.
\<close>

theorem declared_error_recorded:
  fixes p job_id rc task job_store rows now attrs
  defines "s' \<equiv> snd (start p job_id rc task (init job_store rows now attrs))"
  assumes "map_of job_store job_id = Some j"
    and "read_configured_params p (job_user j) rc = Inr ps"
    and "before_run_impl p = None"
    and "run_impl p = Inl e"
    and "isinstance e Exception"
    and "isinstance_any e (get_exceptions_to_catch p)"
  shows "\<exists>r0 r m.
           self_report (created job_store rows now attrs job_id j task) = Some r0
         \<and> persisted s' = Some r \<and> self_report s' = Some m
         \<and> errors r = errors r0 @ [exn_str e] \<and> status r = FAILED
         \<and> errors m = errors r0 @ [exn_str e] \<and> status m = FAILED"
proof -
  have o: "try_outcome p j rc = Inl e"
    using assms by (simp add: try_outcome_run)
  show ?thesis
    unfolding s'_def start_persisted[OF assms(2)] start_final_report[OF assms(2)] o new_report_created
    using assms(6)
    by (auto simp add: handled_report_def new_report_def split: option.splits)
qed

text \<open>
  C4. For every execution in which \<^verbatim>\<open>run()\<close> raises an \<^verbatim>\<open>HTTPError\<close> whose response has
  status code 429, the job's user is a member of an organization whose configuration has
  a rate-limit timeout, and the parameter whose name contains \<^verbatim>\<open>api_key\<close> is absent or
  organization-sourced: the organization configuration's \<^verbatim>\<open>disable_for_rate_limit()\<close> is
  called exactly once.
\<close>

theorem rate_limit_disables_org_once:
  fixes p job_id rc task job_store rows now attrs
  defines "s' \<equiv> snd (start p job_id rc task (init job_store rows now attrs))"
  assumes "map_of job_store job_id = Some j"
    and "read_configured_params p (job_user j) rc = Inr ps"
    and "before_run_impl p = None"
    and "run_impl p = Inl e"
    and "isinstance e HTTPError"
    and "response e = Response 429"
    and "membership (job_user j) = Some org"
    and "rate_limit_timeout (get_or_create_org_configuration p org) = Some t"
    and "case api_key_parameter ps of None \<Rightarrow> True | Some k \<Rightarrow> is_from_org k"
  shows "org_disable_calls s' = 1"
proof -
  have o: "try_outcome p j rc = Inl e"
    using assms by (simp add: try_outcome_run)
  have x: "isinstance e Exception" using assms(6) by (rule HTTPError_is_Exception)
  have np: "\<not> personal_api_key ps"
    using assms(10) by (simp add: personal_api_key_def split: option.splits)
  show ?thesis
    unfolding s'_def start_org_disable_calls[OF assms(2) o x assms(3)]
    using is_rate_limit_429[OF assms(6,7)] assms(8,9) np by simp
qed

text \<open>
  C5, as stated: on a 429 failure with membership and a timeout the disable is skipped
  exactly when the API-key parameter is non-organization-sourced and
  "required-and-supplied". An API key that is personal, supplied and not required is not
  such a key, so by the claim the disable proceeds; the code skips it.
\<close>

theorem required_and_supplied_counterexample:
  "api_key_parameter [optional_personal_key] = Some optional_personal_key
   \<and> \<not> spec_personal_api_key [optional_personal_key]
   \<and> membership (job_user example_job) = Some ''acme''
   \<and> rate_limit_timeout (get_or_create_org_configuration (plugin_429 [optional_personal_key]) ''acme'')
       = Some 3600
   \<and> org_disable_calls (snd (start (plugin_429 [optional_personal_key]) 7 [] ''task''
                                (init [(7, example_job)] [] 100 []))) = 0"
  by code_simp

text \<open>
  C5, amended. On a 429 failure with organization membership and a rate-limit timeout,
  the disable is skipped exactly when a personal API key is in use, where personal means
  that the first parameter whose name contains \<^verbatim>\<open>api_key\<close> is not organization-sourced and
  is required or has a value; otherwise, also when there is no such parameter, it is
  called once.
\<close>

theorem rate_limit_disable_unless_personal_key:
  fixes p job_id rc task job_store rows now attrs
  defines "s' \<equiv> snd (start p job_id rc task (init job_store rows now attrs))"
  assumes "map_of job_store job_id = Some j"
    and "read_configured_params p (job_user j) rc = Inr ps"
    and "before_run_impl p = None"
    and "run_impl p = Inl e"
    and "isinstance e HTTPError"
    and "response e = Response 429"
    and "membership (job_user j) = Some org"
    and "rate_limit_timeout (get_or_create_org_configuration p org) = Some t"
  shows "org_disable_calls s' = (if personal_api_key ps then 0 else 1)"
proof -
  have o: "try_outcome p j rc = Inl e"
    using assms by (simp add: try_outcome_run)
  have x: "isinstance e Exception" using assms(6) by (rule HTTPError_is_Exception)
  show ?thesis
    unfolding s'_def start_org_disable_calls[OF assms(2) o x assms(3)]
    using is_rate_limit_429[OF assms(6,7)] assms(8,9) by simp
qed

text \<open>
  C6. For every call of \<^verbatim>\<open>health_check(user)\<close>: when the probe URL (a string starting
  with \<^verbatim>\<open>http\<close>) gets from its HEAD request a status code from 400 to 408, the result is
  \<^verbatim>\<open>True\<close>; when the request is made (connections are not mocked) and raises a
  \<^verbatim>\<open>ConnectionError\<close> or a \<^verbatim>\<open>Timeout\<close>, the result is \<^verbatim>\<open>False\<close>; and when there is no probe
  URL, the call raises \<^verbatim>\<open>NotImplementedError\<close>, which is neither result.
\<close>

theorem health_check_outcomes:
  "(\<forall>url resp. fst (get_health_check_url p usr s) = Some (PStr url) \<and> startswith url ''http''
        \<and> requests_head p url = Head_returns resp
        \<and> 400 \<le> status_code resp \<and> status_code resp \<le> 408 \<longrightarrow>
      fst (health_check p usr s) = Inr True)
   \<and> (\<forall>url e. fst (get_health_check_url p usr s) = Some (PStr url) \<and> startswith url ''http''
        \<and> \<not> STAGE_CI (django_settings p) \<and> \<not> MOCK_CONNECTIONS (django_settings p)
        \<and> requests_head p url = Head_raises e
        \<and> (isinstance e ConnectionError \<or> isinstance e Timeout) \<longrightarrow>
      fst (health_check p usr s) = Inr False)
   \<and> (fst (get_health_check_url p usr s) = None \<longrightarrow>
        (\<exists>e. fst (health_check p usr s) = Inl e \<and> isinstance e NotImplementedError)
        \<and> fst (health_check p usr s) \<noteq> Inr True \<and> fst (health_check p usr s) \<noteq> Inr False)"
proof (intro conjI allI impI)
  fix url resp
  assume a: "fst (get_health_check_url p usr s) = Some (PStr url) \<and> startswith url ''http''
        \<and> requests_head p url = Head_returns resp
        \<and> 400 \<le> status_code resp \<and> status_code resp \<le> 408"
  then have "url \<noteq> []" by (auto simp: startswith_def)
  with a show "fst (health_check p usr s) = Inr True"
    by (cases "get_health_check_url p usr s") (simp add: health_check_def Let_def)
next
  fix url e
  assume a: "fst (get_health_check_url p usr s) = Some (PStr url) \<and> startswith url ''http''
        \<and> \<not> STAGE_CI (django_settings p) \<and> \<not> MOCK_CONNECTIONS (django_settings p)
        \<and> requests_head p url = Head_raises e
        \<and> (isinstance e ConnectionError \<or> isinstance e Timeout)"
  then have "url \<noteq> []" by (auto simp: startswith_def)
  with a show "fst (health_check p usr s) = Inr False"
    by (cases "get_health_check_url p usr s")
       (auto simp add: health_check_def Let_def healthcheck_failed_def)
next
  assume a: "fst (get_health_check_url p usr s) = None"
  then have h: "fst (health_check p usr s) = Inl (raise NotImplementedError [])"
    by (cases "get_health_check_url p usr s") (simp add: health_check_def)
  show "\<exists>e. fst (health_check p usr s) = Inl e \<and> isinstance e NotImplementedError"
    using h by (simp add: isinstance_def raise_def NotImplementedError_def)
  show "fst (health_check p usr s) \<noteq> Inr True" using h by simp
  show "fst (health_check p usr s) \<noteq> Inr False" using h by simp
qed

text \<open>
  C7. A call of \<^verbatim>\<open>start\<close> with a job id that resolves to no job raises the lookup failure
  \<^verbatim>\<open>Job.DoesNotExist\<close> to the caller. It is raised before the \<^verbatim>\<open>try\<close>: no handler runs
  (the trace stays empty, so nothing is logged and \<^verbatim>\<open>after_run\<close> is not entered), the
  Report Store keeps exactly the rows it had, and the instance has no report; only the job
  id has been bound.
\<close>

theorem start_unknown_job_propagates:
  assumes "map_of job_store job_id = None"
  shows "start p job_id rc task (init job_store rows now attrs) =
           (Inl (raise DoesNotExist ''Job matching query does not exist.''),
            (init job_store rows now attrs)\<lparr>self_job_id := Some job_id\<rparr>)
         \<and> report_rows (snd (start p job_id rc task (init job_store rows now attrs))) = rows
         \<and> self_report (snd (start p job_id rc task (init job_store rows now attrs))) = None
         \<and> trace (snd (start p job_id rc task (init job_store rows now attrs))) = []"
  using assms by (simp add: start_def get_job_def init_def)

theorem start_unknown_job_propagates_witness:
  "map_of [(7, example_job)] (8::int) = None
   \<and> fst (start example_plugin 8 [] ''task'' (init [(7, example_job)] [] 100 [])) =
       Inl (raise DoesNotExist ''Job matching query does not exist.'')
   \<and> report_rows (snd (start example_plugin 8 [] ''task'' (init [(7, example_job)] [] 100 []))) = []
   \<and> self_report (snd (start example_plugin 8 [] ''task'' (init [(7, example_job)] [] 100 []))) = None
   \<and> trace (snd (start example_plugin 8 [] ''task'' (init [(7, example_job)] [] 100 []))) = []"
  using start_unknown_job_propagates[of "[(7, example_job)]" 8 example_plugin "[]" "''task''" "[]" 100 "[]"]
  by (simp add: init_def)

text \<open>
  C8, as stated: an exception raised inside \<^verbatim>\<open>before_run()\<close> is not caught by the run-time
  handler and propagates to the caller instead of being recorded. \<^verbatim>\<open>before_run()\<close> is
  called inside the \<^verbatim>\<open>try\<close>: a \<^verbatim>\<open>RuntimeError\<close> raised there is caught, recorded in the
  report, which is marked FAILED, and \<^verbatim>\<open>start\<close> returns normally.
\<close>

theorem before_run_failure_counterexample:
  "fst (start (example_plugin\<lparr>before_run_impl := Some runtime_error\<rparr>) 7 [] ''task''
          (init [(7, example_job)] [] 100 [])) = Inr ()
   \<and> map_option errors
         (persisted (snd (start (example_plugin\<lparr>before_run_impl := Some runtime_error\<rparr>) 7 [] ''task''
                            (init [(7, example_job)] [] 100 [])))) = Some [''boom'']
   \<and> map_option status
         (persisted (snd (start (example_plugin\<lparr>before_run_impl := Some runtime_error\<rparr>) 7 [] ''task''
                            (init [(7, example_job)] [] 100 [])))) = Some FAILED"
  by code_simp

text \<open>
  C8, amended. For every execution whose job resolves: an exception raised inside
  \<^verbatim>\<open>after_run()\<close> is not caught, it propagates to the caller and leaves the errors and the
  status of the report as the outcome of the \<^verbatim>\<open>try\<close> made them; an \<^verbatim>\<open>Exception\<close> raised
  inside \<^verbatim>\<open>before_run()\<close> is caught by the run-time handler like one of \<^verbatim>\<open>run()\<close>: it is
  recorded as the one error of the report, the status is FAILED, and it reaches the caller
  only in the strict mode \<^verbatim>\<open>STAGE_CI\<close> (or gives way to an exception of \<^verbatim>\<open>after_run\<close>).
\<close>

theorem hook_failures:
  fixes p job_id rc task job_store rows now attrs j
  defines "s' \<equiv> snd (start p job_id rc task (init job_store rows now attrs))"
    and "result \<equiv> fst (start p job_id rc task (init job_store rows now attrs))"
  assumes "map_of job_store job_id = Some j"
  shows "(\<forall>ea. after_run_save_raises p = Some ea \<longrightarrow>
            result = Inl ea
            \<and> (\<exists>m. self_report s' = Some m
                  \<and> errors m = (case try_outcome p j rc of
                                  Inr v \<Rightarrow> []
                                | Inl e \<Rightarrow> if isinstance e Exception then [exn_str e] else [])
                  \<and> status m = (case try_outcome p j rc of
                                  Inr v \<Rightarrow> SUCCESS
                                | Inl e \<Rightarrow> if isinstance e Exception then FAILED else RUNNING)))
       \<and> (\<forall>e ps. read_configured_params p (job_user j) rc = Inr ps
               \<and> before_run_impl p = Some e \<and> isinstance e Exception \<longrightarrow>
            (\<exists>r. persisted s' = Some r \<and> errors r = [exn_str e] \<and> status r = FAILED)
            \<and> result = (case after_run_save_raises p of
                          Some ea \<Rightarrow> Inl ea
                        | None \<Rightarrow> if STAGE_CI (django_settings p) then Inl e else Inr ()))"
proof (intro conjI allI impI)
  fix ea assume a: "after_run_save_raises p = Some ea"
  from start_summary[OF assms(3), where p=p and rc=rc and rows=rows and now=now and attrs=attrs and task=task]
  show "result = Inl ea" unfolding result_def using a by auto
  show "\<exists>m. self_report s' = Some m
                  \<and> errors m = (case try_outcome p j rc of
                                  Inr v \<Rightarrow> []
                                | Inl e \<Rightarrow> if isinstance e Exception then [exn_str e] else [])
                  \<and> status m = (case try_outcome p j rc of
                                  Inr v \<Rightarrow> SUCCESS
                                | Inl e \<Rightarrow> if isinstance e Exception then FAILED else RUNNING)"
    unfolding s'_def start_final_report[OF assms(3)]
    by (auto simp add: handled_report_def new_report_def split: sum.splits)
next
  fix e ps
  assume a: "read_configured_params p (job_user j) rc = Inr ps
               \<and> before_run_impl p = Some e \<and> isinstance e Exception"
  then have o: "try_outcome p j rc = Inl e" by (simp add: try_outcome_before_run)
  show "\<exists>r. persisted s' = Some r \<and> errors r = [exn_str e] \<and> status r = FAILED"
    unfolding s'_def start_persisted[OF assms(3)] o using a
    by (auto simp add: handled_report_def new_report_def split: option.splits)
  show "result = (case after_run_save_raises p of
                          Some ea \<Rightarrow> Inl ea
                        | None \<Rightarrow> if STAGE_CI (django_settings p) then Inl e else Inr ())"
    unfolding result_def using start_result_caught[OF assms(3) o] a by blast
qed

text \<open>
  C9. For every invocation of \<^verbatim>\<open>execute_engine_module\<close> with the identifier of a job and
  the path of a module whose \<^verbatim>\<open>run()\<close> returns a payload: the task returns, the job under
  that identifier has as data model the merge of its old one with the payload under
  \<^verbatim>\<open>append=False\<close>, so each key of the payload has the payload's value and every other
  key its old one, and no other job changes.
\<close>

theorem execute_engine_module_merges:
  fixes import_string job_pk path job_store
  defines "result \<equiv> execute_engine_module import_string job_pk path job_store"
  assumes "map_of job_store job_pk = Some j"
    and "import_string path = Inr engine_module"
    and "engine_module j = Inr module_result"
  shows "fst result = Inr ()
       \<and> (\<exists>j'. map_of (snd result) job_pk = Some j' \<and> job_user j' = job_user j
              \<and> data_model j' = merge (data_model j) module_result False
              \<and> (\<forall>k v. module_result k = Some v \<longrightarrow> data_model j' k = Some v)
              \<and> (\<forall>k. module_result k = None \<longrightarrow> data_model j' k = data_model j k))
       \<and> (\<forall>i. i \<noteq> job_pk \<longrightarrow> map_of (snd result) i = map_of job_store i)"
  using assms(2-4)
  by (simp add: result_def execute_engine_module_def update_conv' merge_def)

text \<open>
  C10. For every execution in which \<^verbatim>\<open>run()\<close> returns a payload that is not a list, the
  report content, in memory and persisted, is the payload exactly as returned, also when
  it is a \<^verbatim>\<open>bytes\<close> object or a \<^verbatim>\<open>File\<close>; the status is SUCCESS.
\<close>

theorem non_list_result_persisted_as_returned:
  fixes p job_id rc task job_store rows now attrs
  defines "s' \<equiv> snd (start p job_id rc task (init job_store rows now attrs))"
  assumes "map_of job_store job_id = Some j"
    and "read_configured_params p (job_user j) rc = Inr ps"
    and "before_run_impl p = None"
    and "run_impl p = Inr content"
    and "\<not> is_list content"
  shows "(\<exists>r. persisted s' = Some r \<and> report r = content \<and> status r = SUCCESS)
       \<and> (\<exists>r. self_report s' = Some r \<and> report r = content \<and> status r = SUCCESS)"
proof -
  have o: "try_outcome p j rc = Inr content"
    using assms by (simp add: try_outcome_run)
  show ?thesis
    unfolding s'_def start_persisted[OF assms(2)] start_final_report[OF assms(2)] o
    using assms(6)
    by (simp add: handled_report_def report_content_non_list split: option.splits)
qed

end
